theory Spec2Isabelle
  imports Main
begin

section \<open>Go strings\<close>

text \<open>
  Both engines walk their input with \<^verbatim>\<open>for _, char := range input\<close>, which yields the
  runes (Unicode code points) of the string one by one, and look up \<^verbatim>\<open>string(char)\<close>, the
  one-rune string.  A Go string is therefore modelled as the list of its runes, a rune as
  its code point, and \<^verbatim>\<open>string(char)\<close> as the singleton list \<open>[char]\<close>.  A byte that
  is not valid UTF-8 is yielded by \<^verbatim>\<open>range\<close> as U+FFFD and is that rune in the list.
  State names, symbols and map keys are Go strings too.  The remainders are Go \<^verbatim>\<open>int\<close>s
  between \<open>-1\<close> and 2, modelled as \<open>int\<close>.
\<close>

type_synonym rune = nat
type_synonym gostring = "rune list"

definition str :: "string \<Rightarrow> gostring" where
  \<comment> \<open>the Go string literal with the given (ASCII) characters\<close>
  "str s = map of_char s"

definition isSpace :: "rune \<Rightarrow> bool" where
  \<comment> \<open>Go's \<^verbatim>\<open>unicode.IsSpace\<close>: tab, newline, vertical tab, form feed, carriage return,
      space, U+0085, U+00A0, and the other code points of category Z / Pattern\_White\_Space\<close>
  "isSpace r \<longleftrightarrow>
     r \<in> {9, 10, 11, 12, 13, 32, 133, 160, 5760, 8232, 8233, 8239, 8287, 12288}
     \<or> (8192 \<le> r \<and> r \<le> 8202)"

definition TrimSpace :: "gostring \<Rightarrow> gostring" where
  \<comment> \<open>Go's \<^verbatim>\<open>strings.TrimSpace\<close>: leading and trailing white space removed\<close>
  "TrimSpace s = rev (dropWhile isSpace (rev (dropWhile isSpace s)))"

section \<open>Errors\<close>

text \<open>One constructor for each \<^verbatim>\<open>fmt.Errorf\<close> of the source, carrying the values it prints.\<close>

datatype error =
    TransitionRuleMissing gostring
      \<comment> \<open>"FSM Error: Transition rule missing for state \%s"\<close>
  | InvalidInputSymbol gostring gostring
      \<comment> \<open>"FSM Error: Invalid input symbol '\%s' for state \%s" (symbol, state)\<close>
  | InitialStateUndefined gostring
      \<comment> \<open>"FSM Config Error: Initial state '\%s' is not defined in the set of States (Q)"\<close>
  | AcceptingStateUndefined gostring
      \<comment> \<open>"FSM Config Error: Accepting state '\%s' is not defined in the set of States (Q)"\<close>
  | MissingTransitionRules gostring
      \<comment> \<open>"FSM Config Error: Missing transition rules for state '\%s' (not in delta)"\<close>
  | MissingTransition gostring gostring
      \<comment> \<open>"FSM Config Error: Missing transition for state '\%s' on symbol '\%s'"\<close>
  | UndefinedTarget gostring gostring gostring
      \<comment> \<open>"FSM Config Error: Transition from '\%s' on '\%s' leads to undefined state '\%s'"\<close>
  | InitFailed error
      \<comment> \<open>"failed to initialize FSM engine: \%w"\<close>
  | NonAcceptingState gostring
      \<comment> \<open>"FSM execution ended in non-accepting state: \%s"\<close>
  | UnknownState gostring
      \<comment> \<open>"FSM execution resulted in unknown state: \%s"\<close>

section \<open>Package fsm: the generic engine (fsm/fsm.go)\<close>

type_synonym transitions = "gostring \<rightharpoonup> (gostring \<rightharpoonup> gostring)"
  \<comment> \<open>\<^verbatim>\<open>map[string]map[string]string\<close>\<close>

type_synonym stringset = "gostring \<rightharpoonup> bool"
  \<comment> \<open>\<^verbatim>\<open>map[string]bool\<close>; membership is the presence of the key\<close>

record FiniteAutomaton =
  States :: stringset
  Alphabet :: stringset
  InitialState :: gostring
  AcceptingStates :: stringset
  Transitions :: transitions

text \<open>
  The loop of \<^verbatim>\<open>Run\<close>, with the current state as accumulator.  A Go function returning
  \<^verbatim>\<open>(string, error)\<close> is a pair of the string and an optional error (\<open>None\<close> is nil).
\<close>

fun Run_loop :: "transitions \<Rightarrow> gostring \<Rightarrow> rune list \<Rightarrow> gostring \<times> error option" where
  "Run_loop tr currentState [] = (currentState, None)"
| "Run_loop tr currentState (char # rest) =
     (case tr currentState of
        None \<Rightarrow> ([], Some (TransitionRuleMissing currentState))
      | Some transitionsFromCurrent \<Rightarrow>
          (case transitionsFromCurrent [char] of
             None \<Rightarrow> ([], Some (InvalidInputSymbol [char] currentState))
           | Some nextState \<Rightarrow> Run_loop tr nextState rest))"

definition Run :: "FiniteAutomaton \<Rightarrow> gostring \<Rightarrow> gostring \<times> error option" where
  "Run fa input = Run_loop (Transitions fa) (InitialState fa) input"

definition IsAccepting :: "FiniteAutomaton \<Rightarrow> gostring \<Rightarrow> bool" where
  "IsAccepting fa state = (if AcceptingStates fa state = None then False else True)"

fun ValidateInput :: "FiniteAutomaton \<Rightarrow> gostring \<Rightarrow> bool" where
  "ValidateInput fa [] = True"
| "ValidateInput fa (char # rest) =
     (if Alphabet fa [char] = None then False else ValidateInput fa rest)"

definition make_set :: "gostring list \<Rightarrow> stringset" where
  \<comment> \<open>\<^verbatim>\<open>m := make(map[string]bool); for _, s := range xs { m[s] = true }\<close>\<close>
  "make_set xs = foldl (\<lambda>m s. m(s \<mapsto> True)) Map.empty xs"

fun check_accepting :: "stringset \<Rightarrow> gostring list \<Rightarrow> error option" where
  "check_accepting stateSet [] = None"
| "check_accepting stateSet (as # rest) =
     (if stateSet as = None then Some (AcceptingStateUndefined as)
      else check_accepting stateSet rest)"

fun check_symbols ::
  "stringset \<Rightarrow> gostring \<Rightarrow> (gostring \<rightharpoonup> gostring) \<Rightarrow> gostring list \<Rightarrow> error option" where
  "check_symbols stateSet currentState transitionsFromCurrent [] = None"
| "check_symbols stateSet currentState transitionsFromCurrent (symbol # rest) =
     (case transitionsFromCurrent symbol of
        None \<Rightarrow> Some (MissingTransition currentState symbol)
      | Some nextState \<Rightarrow>
          if stateSet nextState = None
          then Some (UndefinedTarget currentState symbol nextState)
          else check_symbols stateSet currentState transitionsFromCurrent rest)"

fun check_transitions ::
  "stringset \<Rightarrow> gostring list \<Rightarrow> transitions \<Rightarrow> gostring list \<Rightarrow> error option" where
  "check_transitions stateSet alphabet tr [] = None"
| "check_transitions stateSet alphabet tr (currentState # rest) =
     (case tr currentState of
        None \<Rightarrow> Some (MissingTransitionRules currentState)
      | Some transitionsFromCurrent \<Rightarrow>
          (case check_symbols stateSet currentState transitionsFromCurrent alphabet of
             Some err \<Rightarrow> Some err
           | None \<Rightarrow> check_transitions stateSet alphabet tr rest))"

text \<open>
  \<^verbatim>\<open>NewFiniteAutomaton\<close> returns either \<^verbatim>\<open>(nil, err)\<close> or \<^verbatim>\<open>(fa, nil)\<close>: a sum, with
  \<open>Inl\<close> the error.  The three validation loops are \<open>check_accepting\<close>,
  \<open>check_transitions\<close> and, nested in it, \<open>check_symbols\<close>.
\<close>

definition NewFiniteAutomaton ::
  "gostring list \<Rightarrow> gostring list \<Rightarrow> gostring \<Rightarrow> gostring list \<Rightarrow> transitions
     \<Rightarrow> error + FiniteAutomaton" where
  "NewFiniteAutomaton states alphabet initialState acceptingStates tr =
     (let stateSet = make_set states;
          alphaSet = make_set alphabet;
          acceptingSet = make_set acceptingStates;
          fa = \<lparr>States = stateSet, Alphabet = alphaSet, InitialState = initialState,
                AcceptingStates = acceptingSet, Transitions = tr\<rparr>
      in if stateSet initialState = None then Inl (InitialStateUndefined initialState)
         else case check_accepting stateSet acceptingStates of
                Some err \<Rightarrow> Inl err
              | None \<Rightarrow>
                  (case check_transitions stateSet alphabet tr states of
                     Some err \<Rightarrow> Inl err
                   | None \<Rightarrow> Inr fa))"

text \<open>
  The interface \<^verbatim>\<open>Automaton\<close>: any value with the three methods.  \<open>Automaton_of\<close> is
  a \<^verbatim>\<open>*FiniteAutomaton\<close> seen through the interface.
\<close>

record Automaton =
  run :: "gostring \<Rightarrow> gostring \<times> error option"
  isAccepting :: "gostring \<Rightarrow> bool"
  validateInput :: "gostring \<Rightarrow> bool"

definition Automaton_of :: "FiniteAutomaton \<Rightarrow> Automaton" where
  "Automaton_of fa = \<lparr>run = Run fa, isAccepting = IsAccepting fa, validateInput = ValidateInput fa\<rparr>"

section \<open>Package mod3: the calculator (mod3/modthree.go)\<close>

definition StateS0 :: gostring where "StateS0 = str ''S0''"
definition StateS1 :: gostring where "StateS1 = str ''S1''"
definition StateS2 :: gostring where "StateS2 = str ''S2''"
definition Symbol0 :: gostring where "Symbol0 = str ''0''"
definition Symbol1 :: gostring where "Symbol1 = str ''1''"

text \<open>
  The configuration struct of package mod3 (its own \<^verbatim>\<open>FiniteAutomaton\<close>, with slices where
  package fsm has sets).
\<close>

record mod3_FiniteAutomaton =
  cfg_States :: "gostring list"
  cfg_Alphabet :: "gostring list"
  cfg_InitialState :: gostring
  cfg_AcceptingStates :: "gostring list"
  cfg_Transitions :: transitions

definition mod3_table :: transitions where
  \<comment> \<open>the transition literal shared by \<^verbatim>\<open>GetModThreeConfig\<close> and \<^verbatim>\<open>ModThreeFA\<close>\<close>
  "mod3_table =
     [StateS0 \<mapsto> [Symbol0 \<mapsto> StateS0, Symbol1 \<mapsto> StateS1],
      StateS1 \<mapsto> [Symbol0 \<mapsto> StateS2, Symbol1 \<mapsto> StateS0],
      StateS2 \<mapsto> [Symbol0 \<mapsto> StateS1, Symbol1 \<mapsto> StateS2]]"

definition GetModThreeConfig :: mod3_FiniteAutomaton where
  "GetModThreeConfig =
     \<lparr>cfg_States = [StateS0, StateS1, StateS2],
      cfg_Alphabet = [Symbol0, Symbol1],
      cfg_InitialState = StateS0,
      cfg_AcceptingStates = [StateS0, StateS1, StateS2],
      cfg_Transitions = mod3_table\<rparr>"

record ModThreeCalculator =
  fa :: Automaton

definition NewModThreeCalculator :: "mod3_FiniteAutomaton \<Rightarrow> error + ModThreeCalculator" where
  "NewModThreeCalculator cfg =
     (case NewFiniteAutomaton (cfg_States cfg) (cfg_Alphabet cfg) (cfg_InitialState cfg)
             (cfg_AcceptingStates cfg) (cfg_Transitions cfg) of
        Inl err \<Rightarrow> Inl (InitFailed err)
      | Inr a \<Rightarrow> Inr \<lparr>fa = Automaton_of a\<rparr>)"

definition stateToRemainder :: "gostring \<Rightarrow> int" where
  "stateToRemainder state =
     (if state = StateS0 then 0
      else if state = StateS1 then 1
      else if state = StateS2 then 2
      else - 1)"

definition isStateAccepting :: "ModThreeCalculator \<Rightarrow> gostring \<Rightarrow> bool" where
  "isStateAccepting c finalState = isAccepting (fa c) finalState"

definition Calculate :: "ModThreeCalculator \<Rightarrow> gostring \<Rightarrow> int \<times> error option" where
  "Calculate c input =
     (if TrimSpace input = [] then (0, None)
      else case run (fa c) input of
             (finalState, Some err) \<Rightarrow> (- 1, Some err)
           | (finalState, None) \<Rightarrow>
               if \<not> isStateAccepting c finalState
               then (- 1, Some (NonAcceptingState finalState))
               else let remainder = stateToRemainder finalState
                    in if remainder = - 1 then (- 1, Some (UnknownState finalState))
                       else (remainder, None))"

section \<open>Package mod3: the function pipeline\<close>

text \<open>
  \<^verbatim>\<open>ModThree\<close> runs the engine of package mod3 itself: \<^verbatim>\<open>ModThreeFA\<close> fills the struct
  without the validating constructor, and the \<^verbatim>\<open>Run\<close> of package mod3 has the loop of
  package fsm line for line, over the struct's own fields.
\<close>

definition ModThreeFA :: mod3_FiniteAutomaton where
  "ModThreeFA =
     \<lparr>cfg_States = [StateS0, StateS1, StateS2],
      cfg_Alphabet = [Symbol0, Symbol1],
      cfg_InitialState = StateS0,
      cfg_AcceptingStates = [StateS0, StateS1, StateS2],
      cfg_Transitions = mod3_table\<rparr>"

definition mod3_Run :: "mod3_FiniteAutomaton \<Rightarrow> gostring \<Rightarrow> gostring \<times> error option" where
  "mod3_Run a input = Run_loop (cfg_Transitions a) (cfg_InitialState a) input"

definition StateToRemainder :: "gostring \<Rightarrow> int" where
  "StateToRemainder state =
     (if state = StateS0 then 0
      else if state = StateS1 then 1
      else if state = StateS2 then 2
      else - 1)"

definition modThree :: "(gostring \<Rightarrow> gostring \<times> error option) \<Rightarrow> gostring \<Rightarrow> int" where
  \<comment> \<open>the automaton argument is the one-method interface of this package: its \<^verbatim>\<open>Run\<close>\<close>
  "modThree fa_run input =
     (if TrimSpace input = [] then 0
      else case fa_run input of
             (finalState, Some err) \<Rightarrow> - 1
           | (finalState, None) \<Rightarrow> StateToRemainder finalState)"

definition ModThree :: "gostring \<Rightarrow> int" where
  "ModThree input = modThree (mod3_Run ModThreeFA) input"

section \<open>Specification-level notions\<close>

definition bin_value :: "gostring \<Rightarrow> nat" where
  \<comment> \<open>the number a string of '0' (48) and '1' (49) denotes, most significant bit first\<close>
  "bin_value s = foldl (\<lambda>n c. 2 * n + (if c = 49 then 1 else 0)) 0 s"

definition is_binary :: "gostring \<Rightarrow> bool" where
  "is_binary s \<longleftrightarrow> list_all (\<lambda>c. c = 48 \<or> c = 49) s"

definition delta :: "FiniteAutomaton \<Rightarrow> gostring \<Rightarrow> rune \<Rightarrow> gostring option" where
  \<comment> \<open>the transition function as a partial function: the two lookups of one step\<close>
  "delta a s c = (case Transitions a s of None \<Rightarrow> None | Some row \<Rightarrow> row [c])"

definition fold_delta :: "FiniteAutomaton \<Rightarrow> rune list \<Rightarrow> gostring option" where
  \<comment> \<open>the left fold of the transition function over the symbols, from the initial state\<close>
  "fold_delta a input =
     foldl (\<lambda>cur c. case cur of None \<Rightarrow> None | Some s \<Rightarrow> delta a s c) (Some (InitialState a)) input"

definition has_transition :: "transitions \<Rightarrow> gostring \<Rightarrow> gostring \<Rightarrow> bool" where
  \<comment> \<open>invariant 3 at one pair: the state has an entry for the symbol\<close>
  "has_transition tr s a = (case tr s of None \<Rightarrow> False | Some row \<Rightarrow> row a \<noteq> None)"

definition target_declared :: "gostring list \<Rightarrow> transitions \<Rightarrow> gostring \<Rightarrow> gostring \<Rightarrow> bool" where
  \<comment> \<open>invariant 4 at one pair: the target of the entry, where there is one, is declared\<close>
  "target_declared states tr s a =
     (case tr s of None \<Rightarrow> True
      | Some row \<Rightarrow> (case row a of None \<Rightarrow> True | Some t \<Rightarrow> t \<in> set states))"

definition four_invariants ::
  "gostring list \<Rightarrow> gostring list \<Rightarrow> gostring \<Rightarrow> gostring list \<Rightarrow> transitions \<Rightarrow> bool" where
  \<comment> \<open>the four invariants of the specification, on the arguments of the constructor\<close>
  "four_invariants states alphabet initialState acceptingStates tr \<longleftrightarrow>
     initialState \<in> set states
     \<and> list_all (\<lambda>s. s \<in> set states) acceptingStates
     \<and> list_all (\<lambda>s. list_all (has_transition tr s) alphabet) states
     \<and> list_all (\<lambda>s. list_all (target_declared states tr s) alphabet) states"

definition every_state_has_row :: "gostring list \<Rightarrow> transitions \<Rightarrow> bool" where
  \<comment> \<open>what the constructor checks first for each declared state: a row of its own\<close>
  "every_state_has_row states tr = list_all (\<lambda>s. tr s \<noteq> None) states"

section \<open>Fixtures and auxiliary functions\<close>

definition setupSimpleFA :: FiniteAutomaton where
  \<comment> \<open>the automaton of fsm/fsm\_test.go, assembled without the validating constructor\<close>
  "setupSimpleFA =
     \<lparr>States = Map.empty, Alphabet = Map.empty, InitialState = str ''Start'',
      AcceptingStates = Map.empty,
      Transitions =
        [str ''Start'' \<mapsto> [str ''a'' \<mapsto> str ''Middle'', str ''x'' \<mapsto> str ''Fail''],
         str ''Middle'' \<mapsto> [str ''b'' \<mapsto> str ''End''],
         str ''End'' \<mapsto> [str ''c'' \<mapsto> str ''End'']]\<rparr>"

definition mod3_automaton :: FiniteAutomaton where
  \<comment> \<open>the automaton \<open>NewFiniteAutomaton\<close> builds from the fields of \<open>GetModThreeConfig\<close>\<close>
  "mod3_automaton =
     \<lparr>States = make_set [StateS0, StateS1, StateS2],
      Alphabet = make_set [Symbol0, Symbol1],
      InitialState = StateS0,
      AcceptingStates = make_set [StateS0, StateS1, StateS2],
      Transitions = mod3_table\<rparr>"

definition rem_state :: "nat \<Rightarrow> gostring" where
  \<comment> \<open>the state that stands for a remainder\<close>
  "rem_state r = (if r = 0 then StateS0 else if r = 1 then StateS1 else StateS2)"

definition bin_from :: "nat \<Rightarrow> gostring \<Rightarrow> nat" where
  \<comment> \<open>\<open>bin_value\<close> continued from the value of the digits read so far\<close>
  "bin_from n s = foldl (\<lambda>n c. 2 * n + (if c = 49 then 1 else 0)) n s"

section \<open>Auxiliary lemmas\<close>

subsection \<open>Literals and sets\<close>

lemma str_simps:
  "StateS0 = [83, 48]" "StateS1 = [83, 49]" "StateS2 = [83, 50]"
  "Symbol0 = [48]" "Symbol1 = [49]"
  by (simp_all add: StateS0_def StateS1_def StateS2_def Symbol0_def Symbol1_def str_def)

lemma foldl_set_lookup:
  "foldl (\<lambda>m s. m(s \<mapsto> True)) m xs k = (if k \<in> set xs then Some True else m k)"
  by (induction xs arbitrary: m) auto

lemma make_set_lookup: "make_set xs k = (if k \<in> set xs then Some True else None)"
  by (simp add: make_set_def foldl_set_lookup)

lemma make_set_None: "make_set xs k = None \<longleftrightarrow> k \<notin> set xs"
  by (simp add: make_set_lookup)

subsection \<open>The validation loops\<close>

lemma check_accepting_None:
  "check_accepting S xs = None \<longleftrightarrow> (\<forall>x \<in> set xs. S x \<noteq> None)"
  by (induction xs) auto

lemma check_symbols_None:
  "check_symbols S cur row al = None \<longleftrightarrow> (\<forall>a \<in> set al. \<exists>t. row a = Some t \<and> S t \<noteq> None)"
  by (induction al) (auto split: option.splits)

lemma check_transitions_None:
  "check_transitions S al tr sts = None \<longleftrightarrow>
     (\<forall>s \<in> set sts. \<exists>row. tr s = Some row \<and> check_symbols S s row al = None)"
  by (induction sts) (auto split: option.splits)

lemma ValidateInput_set: "ValidateInput a input \<longleftrightarrow> (\<forall>c \<in> set input. Alphabet a [c] \<noteq> None)"
  by (induction input) auto

subsection \<open>The loop of Run\<close>

lemma Run_loop_fold:
  "Run_loop (Transitions a) cur input = (s, None) \<Longrightarrow>
   foldl (\<lambda>cur c. case cur of None \<Rightarrow> None | Some s \<Rightarrow> delta a s c) (Some cur) input = Some s"
proof (induction input arbitrary: cur)
  case Nil
  then show ?case by simp
next
  case (Cons c cs)
  from Cons.prems obtain row nxt where
    row: "Transitions a cur = Some row" and nxt: "row [c] = Some nxt"
    and rest: "Run_loop (Transitions a) nxt cs = (s, None)"
    by (auto split: option.splits)
  have "delta a cur c = Some nxt" using row nxt by (simp add: delta_def)
  with Cons.IH [OF rest] show ?case by simp
qed

lemma Run_loop_error_empty:
  "snd (Run_loop tr cur input) \<noteq> None \<Longrightarrow> fst (Run_loop tr cur input) = []"
  by (induction input arbitrary: cur) (auto split: option.splits)

lemma Run_loop_append:
  "Run_loop tr cur pre = (s, None) \<Longrightarrow> Run_loop tr cur (pre @ rest) = Run_loop tr s rest"
  by (induction pre arbitrary: cur) (auto split: option.splits)

lemma Run_loop_error_split:
  "Run_loop tr cur input = (r, Some e) \<Longrightarrow>
   \<exists>pre c rest s. input = pre @ c # rest \<and> Run_loop tr cur pre = (s, None) \<and>
      ((tr s = None \<and> e = TransitionRuleMissing s) \<or>
       (\<exists>row. tr s = Some row \<and> row [c] = None \<and> e = InvalidInputSymbol [c] s))"
proof (induction input arbitrary: cur)
  case Nil
  then show ?case by simp
next
  case (Cons c cs)
  show ?case
  proof (cases "tr cur")
    case None
    with Cons.prems have "e = TransitionRuleMissing cur" by simp
    with None have "c # cs = [] @ c # cs \<and> Run_loop tr cur [] = (cur, None) \<and>
      ((tr cur = None \<and> e = TransitionRuleMissing cur) \<or>
       (\<exists>row. tr cur = Some row \<and> row [c] = None \<and> e = InvalidInputSymbol [c] cur))" by simp
    then show ?thesis by blast
  next
    case (Some row)
    show ?thesis
    proof (cases "row [c]")
      case None
      with Some Cons.prems have "e = InvalidInputSymbol [c] cur" by simp
      with None Some have "c # cs = [] @ c # cs \<and> Run_loop tr cur [] = (cur, None) \<and>
      ((tr cur = None \<and> e = TransitionRuleMissing cur) \<or>
       (\<exists>row. tr cur = Some row \<and> row [c] = None \<and> e = InvalidInputSymbol [c] cur))" by simp
      then show ?thesis by blast
    next
      case (Some nxt)
      with \<open>tr cur = Some row\<close> Cons.prems have "Run_loop tr nxt cs = (r, Some e)" by simp
      from Cons.IH [OF this] obtain pre c' rest s where
        a: "cs = pre @ c' # rest" and b: "Run_loop tr nxt pre = (s, None)" and
        d: "(tr s = None \<and> e = TransitionRuleMissing s) \<or>
       (\<exists>row. tr s = Some row \<and> row [c'] = None \<and> e = InvalidInputSymbol [c'] s)" by blast
      have "c # cs = (c # pre) @ c' # rest" using a by simp
      moreover have "Run_loop tr cur (c # pre) = (s, None)" using b Some \<open>tr cur = Some row\<close> by simp
      ultimately show ?thesis using d by blast
    qed
  qed
qed

subsection \<open>What a successful construction gives\<close>

lemma NewFiniteAutomaton_Inr_iff:
  "NewFiniteAutomaton st al i acc tr = Inr a \<longleftrightarrow>
     a = \<lparr>States = make_set st, Alphabet = make_set al, InitialState = i,
          AcceptingStates = make_set acc, Transitions = tr\<rparr>
     \<and> i \<in> set st \<and> set acc \<subseteq> set st
     \<and> (\<forall>s \<in> set st. \<exists>row. tr s = Some row \<and>
            (\<forall>x \<in> set al. \<exists>t. row x = Some t \<and> t \<in> set st))"
proof -
  have acc: "check_accepting (make_set st) acc = None \<longleftrightarrow> set acc \<subseteq> set st"
    by (auto simp: check_accepting_None make_set_None)
  have trs: "check_transitions (make_set st) al tr st = None \<longleftrightarrow>
     (\<forall>s \<in> set st. \<exists>row. tr s = Some row \<and>
            (\<forall>x \<in> set al. \<exists>t. row x = Some t \<and> t \<in> set st))"
    by (simp add: check_transitions_None check_symbols_None make_set_None)
  show ?thesis
    unfolding NewFiniteAutomaton_def Let_def
    using acc trs
    by (cases "check_accepting (make_set st) acc";
        cases "check_transitions (make_set st) al tr st")
       (auto simp: make_set_None)
qed

lemma valid_config_iff:
  "four_invariants st al i acc tr \<and> every_state_has_row st tr \<longleftrightarrow>
     i \<in> set st \<and> set acc \<subseteq> set st
     \<and> (\<forall>s \<in> set st. \<exists>row. tr s = Some row \<and>
            (\<forall>x \<in> set al. \<exists>t. row x = Some t \<and> t \<in> set st))"
  unfolding four_invariants_def every_state_has_row_def has_transition_def
    target_declared_def list_all_iff
  by (auto split: option.splits) (metis option.sel)+

lemma row_of_nonempty_alphabet:
  "al \<noteq> [] \<Longrightarrow> four_invariants st al i acc tr \<Longrightarrow> every_state_has_row st tr"
  unfolding four_invariants_def every_state_has_row_def has_transition_def list_all_iff
  by (cases al) (auto split: option.splits)

lemma Run_loop_total:
  assumes "\<forall>s \<in> set st. \<exists>row. tr s = Some row \<and>
            (\<forall>x \<in> set al. \<exists>t. row x = Some t \<and> t \<in> set st)"
    and "cur \<in> set st" and "\<forall>c \<in> set input. [c] \<in> set al"
  shows "\<exists>s. Run_loop tr cur input = (s, None) \<and> s \<in> set st"
  using assms(2,3)
proof (induction input arbitrary: cur)
  case Nil
  then show ?case by simp
next
  case (Cons c cs)
  from assms(1) Cons.prems obtain row t where
    "tr cur = Some row" "row [c] = Some t" "t \<in> set st"
    by (metis list.set_intros(1))
  moreover from Cons.IH [OF \<open>t \<in> set st\<close>] Cons.prems(2)
  have "\<exists>s. Run_loop tr t cs = (s, None) \<and> s \<in> set st" by simp
  ultimately show ?case by simp
qed

subsection \<open>The modulo-three table\<close>

lemma less_3_cases: "r < (3::nat) \<Longrightarrow> r = 0 \<or> r = 1 \<or> r = 2"
  by arith

lemma Run_loop_mod3_step0:
  "Run_loop mod3_table StateS0 (c # cs) =
     (if c = 48 then Run_loop mod3_table StateS0 cs
      else if c = 49 then Run_loop mod3_table StateS1 cs
      else ([], Some (InvalidInputSymbol [c] StateS0)))"
  by (simp add: mod3_table_def str_simps)

lemma Run_loop_mod3_step1:
  "Run_loop mod3_table StateS1 (c # cs) =
     (if c = 48 then Run_loop mod3_table StateS2 cs
      else if c = 49 then Run_loop mod3_table StateS0 cs
      else ([], Some (InvalidInputSymbol [c] StateS1)))"
  by (simp add: mod3_table_def str_simps)

lemma Run_loop_mod3_step2:
  "Run_loop mod3_table StateS2 (c # cs) =
     (if c = 48 then Run_loop mod3_table StateS1 cs
      else if c = 49 then Run_loop mod3_table StateS2 cs
      else ([], Some (InvalidInputSymbol [c] StateS2)))"
  by (simp add: mod3_table_def str_simps)

lemma Run_loop_mod3_step:
  "r < 3 \<Longrightarrow>
   Run_loop mod3_table (rem_state r) (c # cs) =
     (if c = 48 then Run_loop mod3_table (rem_state (2 * r mod 3)) cs
      else if c = 49 then Run_loop mod3_table (rem_state ((2 * r + 1) mod 3)) cs
      else ([], Some (InvalidInputSymbol [c] (rem_state r))))"
proof (drule less_3_cases, elim disjE)
  assume "r = 0"
  then show ?thesis by (simp add: rem_state_def Run_loop_mod3_step0 del: Run_loop.simps)
next
  assume "r = 1"
  then show ?thesis by (simp add: rem_state_def Run_loop_mod3_step1 del: Run_loop.simps)
next
  assume "r = 2"
  then show ?thesis by (simp add: rem_state_def Run_loop_mod3_step2 del: Run_loop.simps)
qed

lemma bin_from_simps [simp]:
  "bin_from n [] = n"
  "bin_from n (c # cs) = bin_from (2 * n + (if c = 49 then 1 else 0)) cs"
  by (simp_all add: bin_from_def)

lemma bin_value_bin_from: "bin_value s = bin_from 0 s"
  by (simp add: bin_value_def bin_from_def)

lemma NewFiniteAutomaton_mod3:
  "NewFiniteAutomaton [StateS0, StateS1, StateS2] [Symbol0, Symbol1] StateS0
     [StateS0, StateS1, StateS2] mod3_table = Inr mod3_automaton"
  by (simp add: NewFiniteAutomaton_Inr_iff mod3_automaton_def mod3_table_def str_simps)

lemma NewModThreeCalculator_mod3:
  "NewModThreeCalculator GetModThreeConfig = Inr \<lparr>fa = Automaton_of mod3_automaton\<rparr>"
  by (simp add: NewModThreeCalculator_def GetModThreeConfig_def NewFiniteAutomaton_mod3)

lemma Run_loop_mod3_binary:
  "is_binary input \<Longrightarrow>
   Run_loop mod3_table (rem_state (n mod 3)) input = (rem_state (bin_from n input mod 3), None)"
proof (induction input arbitrary: n)
  case Nil
  then show ?case by simp
next
  case (Cons c cs)
  from Cons.prems have cs: "is_binary cs" and c: "c = 48 \<or> c = 49"
    by (simp_all add: is_binary_def)
  have lt: "n mod 3 < 3" by simp
  have m0: "2 * (n mod 3) mod 3 = (2 * n) mod 3" by (rule mod_mult_right_eq)
  have m1: "(2 * (n mod 3) + 1) mod 3 = (2 * n + 1) mod 3"
    by (metis mod_add_left_eq mod_mult_right_eq)
  from c show ?case
  proof
    assume c48: "c = 48"
    have "Run_loop mod3_table (rem_state (n mod 3)) (c # cs)
          = Run_loop mod3_table (rem_state ((2 * n) mod 3)) cs"
      unfolding Run_loop_mod3_step [OF lt] m0 using c48 by simp
    also have "\<dots> = (rem_state (bin_from (2 * n) cs mod 3), None)"
      by (rule Cons.IH [OF cs])
    also have "bin_from (2 * n) cs = bin_from n (c # cs)" using c48 by simp
    finally show ?thesis .
  next
    assume c49: "c = 49"
    have "Run_loop mod3_table (rem_state (n mod 3)) (c # cs)
          = Run_loop mod3_table (rem_state ((2 * n + 1) mod 3)) cs"
      unfolding Run_loop_mod3_step [OF lt] m1 using c49 by simp
    also have "\<dots> = (rem_state (bin_from (2 * n + 1) cs mod 3), None)"
      by (rule Cons.IH [OF cs])
    also have "bin_from (2 * n + 1) cs = bin_from n (c # cs)" using c49 by simp
    finally show ?thesis .
  qed
qed

lemma Run_loop_mod3_invalid:
  "\<not> is_binary input \<Longrightarrow> r < 3 \<Longrightarrow>
   \<exists>c s. Run_loop mod3_table (rem_state r) input = ([], Some (InvalidInputSymbol [c] s))"
proof (induction input arbitrary: r)
  case Nil
  then show ?case by (simp add: is_binary_def)
next
  case (Cons c cs)
  note step = Run_loop_mod3_step [OF Cons.prems(2), of c cs]
  consider "c = 48" | "c = 49" | "c \<noteq> 48" "c \<noteq> 49" by blast
  then show ?case
  proof cases
    case 1
    with Cons.prems have nb: "\<not> is_binary cs" by (simp add: is_binary_def)
    have "2 * r mod 3 < 3" by simp
    from Cons.IH [OF nb this] show ?thesis unfolding step using 1 by simp
  next
    case 2
    with Cons.prems have nb: "\<not> is_binary cs" by (simp add: is_binary_def)
    have "(2 * r + 1) mod 3 < 3" by simp
    from Cons.IH [OF nb this] show ?thesis unfolding step using 2 by simp
  next
    case 3
    then show ?thesis unfolding step by simp
  qed
qed

lemma rem_state_remainder: "r < 3 \<Longrightarrow> stateToRemainder (rem_state r) = int r"
  by (drule less_3_cases) (auto simp: stateToRemainder_def rem_state_def str_simps)

lemma rem_state_accepting: "r < 3 \<Longrightarrow> IsAccepting mod3_automaton (rem_state r)"
  by (drule less_3_cases)
     (auto simp: IsAccepting_def mod3_automaton_def rem_state_def make_set_None)

subsection \<open>Trimming\<close>

lemma TrimSpace_empty_iff: "TrimSpace s = [] \<longleftrightarrow> list_all isSpace s"
proof
  assume "TrimSpace s = []"
  then have all: "\<forall>x \<in> set (dropWhile isSpace s). isSpace x"
    by (simp add: TrimSpace_def)
  have "dropWhile isSpace s = []"
  proof (rule ccontr)
    assume ne: "dropWhile isSpace s \<noteq> []"
    then have "\<not> isSpace (hd (dropWhile isSpace s))" by (rule hd_dropWhile)
    moreover from ne have "hd (dropWhile isSpace s) \<in> set (dropWhile isSpace s)" by simp
    ultimately show False using all by blast
  qed
  then show "list_all isSpace s" by (simp add: list_all_iff)
next
  assume "list_all isSpace s"
  then have d: "dropWhile isSpace s = []" by (simp add: list_all_iff)
  show "TrimSpace s = []" unfolding TrimSpace_def d by simp
qed

lemma binary_not_space: "c = 48 \<or> c = 49 \<Longrightarrow> \<not> isSpace c"
  by (auto simp: isSpace_def)

lemma TrimSpace_binary: "is_binary input \<Longrightarrow> TrimSpace input = [] \<longleftrightarrow> input = []"
  by (cases input) (auto simp: TrimSpace_empty_iff is_binary_def binary_not_space)

subsection \<open>Calculate on the modulo-three automaton\<close>

lemma Calculate_mod3_binary:
  "is_binary input \<Longrightarrow>
   Calculate \<lparr>fa = Automaton_of mod3_automaton\<rparr> input = (int (bin_value input mod 3), None)"
proof (cases "input = []")
  case True
  then show ?thesis by (simp add: Calculate_def TrimSpace_def bin_value_def)
next
  case False
  assume b: "is_binary input"
  have r: "Run mod3_automaton input = (rem_state (bin_value input mod 3), None)"
    using Run_loop_mod3_binary [OF b, of 0]
    by (simp add: Run_def mod3_automaton_def rem_state_def bin_value_bin_from)
  have lt: "bin_value input mod 3 < 3" by simp
  have neq: "int (bin_value input mod 3) \<noteq> - 1" by simp
  from False b have "TrimSpace input \<noteq> []" by (simp add: TrimSpace_binary)
  then show ?thesis
    using neq
    by (simp add: Calculate_def Automaton_of_def isStateAccepting_def r
        rem_state_accepting [OF lt] rem_state_remainder [OF lt] Let_def)
qed

lemma Calculate_mod3_invalid:
  "\<not> is_binary input \<Longrightarrow> TrimSpace input \<noteq> [] \<Longrightarrow>
   \<exists>c s. Calculate \<lparr>fa = Automaton_of mod3_automaton\<rparr> input = (- 1, Some (InvalidInputSymbol [c] s))"
proof -
  assume nb: "\<not> is_binary input" and t: "TrimSpace input \<noteq> []"
  from Run_loop_mod3_invalid [OF nb, of 0] obtain c s where
    "Run mod3_automaton input = ([], Some (InvalidInputSymbol [c] s))"
    by (auto simp: Run_def mod3_automaton_def rem_state_def)
  with t show ?thesis
    by (simp add: Calculate_def Automaton_of_def)
qed

lemma bin_from_append: "bin_from n (xs @ ys) = bin_from (bin_from n xs) ys"
  by (simp add: bin_from_def)

lemma is_binary_append: "is_binary (xs @ ys) \<longleftrightarrow> is_binary xs \<and> is_binary ys"
  by (simp add: is_binary_def)

lemma is_binary_repeat: "is_binary xs \<Longrightarrow> is_binary (concat (replicate k xs))"
  by (induction k) (simp_all add: is_binary_append, simp add: is_binary_def)

lemma bin_from_repeat_10:
  "bin_from n (concat (replicate k [49, 48])) mod 3 = (n + 2 * k) mod 3"
proof (induction k arbitrary: n)
  case 0
  then show ?case by simp
next
  case (Suc k)
  have "bin_from n (concat (replicate (Suc k) [49, 48])) mod 3
        = bin_from (2 * (2 * n + 1)) (concat (replicate k [49, 48])) mod 3"
    by simp
  also have "\<dots> = (2 * (2 * n + 1) + 2 * k) mod 3" by (rule Suc.IH)
  also have "2 * (2 * n + 1) + 2 * k = 3 * n + (n + 2 * Suc k)" by simp
  also have "(3 * n + (n + 2 * Suc k)) mod 3 = (n + 2 * Suc k) mod 3"
    by (rule mod_mult_self4)
  finally show ?case .
qed

lemma repeat_10_value: "bin_value (concat (replicate 100 (str ''10''))) mod 3 = 2"
  using bin_from_repeat_10 [of 0 100] by (simp add: bin_value_bin_from str_def)

lemma repeat_10_binary: "is_binary (concat (replicate 100 (str ''10'')))"
  by (rule is_binary_repeat) (simp add: is_binary_def str_def)

lemma small_values: "is_binary (str ''110'')" "bin_value (str ''110'') = 6"
  "is_binary (str ''101'')" "bin_value (str ''101'') = 5"
  by (simp_all add: is_binary_def bin_value_def str_def)

lemma NewModThreeCalculator_mod3_eq:
  "NewModThreeCalculator GetModThreeConfig = Inr c \<longleftrightarrow> c = \<lparr>fa = Automaton_of mod3_automaton\<rparr>"
  by (auto simp: NewModThreeCalculator_mod3)

lemma stateToRemainder_range: "stateToRemainder s \<in> {- 1, 0, 1, 2}"
  by (simp add: stateToRemainder_def)

lemma Calculate_sentinel: "snd (Calculate c input) \<noteq> None \<longleftrightarrow> fst (Calculate c input) = - 1"
  by (cases "run (fa c) input"; cases "snd (run (fa c) input)")
     (auto simp: Calculate_def Let_def)

lemma Calculate_success_range:
  "snd (Calculate c input) = None \<Longrightarrow> fst (Calculate c input) \<in> {0, 1, 2}"
  using stateToRemainder_range [of "fst (run (fa c) input)"]
  by (cases "run (fa c) input"; cases "snd (run (fa c) input)")
     (auto simp: Calculate_def Let_def split: if_splits)

subsection \<open>The two pipelines\<close>

lemma Run_mod3_eq: "Run mod3_automaton input = mod3_Run ModThreeFA input"
  by (simp add: Run_def mod3_Run_def mod3_automaton_def ModThreeFA_def)

lemma StateToRemainder_eq: "StateToRemainder s = stateToRemainder s"
  by (simp add: StateToRemainder_def stateToRemainder_def)

lemma Run_mod3_cases:
  "(is_binary input \<and> Run mod3_automaton input = (rem_state (bin_value input mod 3), None))
   \<or> (\<not> is_binary input \<and> (\<exists>e. Run mod3_automaton input = ([], Some e)))"
proof (cases "is_binary input")
  case True
  from Run_loop_mod3_binary [OF True, of 0] True show ?thesis
    by (simp add: Run_def mod3_automaton_def rem_state_def bin_value_bin_from)
next
  case False
  from Run_loop_mod3_invalid [OF False, of 0] False show ?thesis
    by (auto simp: Run_def mod3_automaton_def rem_state_def)
qed

lemma ModThree_eq_Calculate:
  "ModThree input = fst (Calculate \<lparr>fa = Automaton_of mod3_automaton\<rparr> input)"
proof (cases "TrimSpace input = []")
  case True
  then show ?thesis by (simp add: ModThree_def modThree_def Calculate_def)
next
  case False
  from Run_mod3_cases [of input] show ?thesis
  proof (elim disjE conjE exE)
    assume r: "Run mod3_automaton input = (rem_state (bin_value input mod 3), None)"
    have lt: "bin_value input mod 3 < 3" by simp
    show ?thesis
      using False
      by (simp add: ModThree_def modThree_def Calculate_def Automaton_of_def
          isStateAccepting_def Run_mod3_eq [symmetric] r StateToRemainder_eq
          rem_state_accepting [OF lt] rem_state_remainder [OF lt] Let_def)
  next
    fix e assume r: "Run mod3_automaton input = ([], Some e)"
    show ?thesis
      using False
      by (simp add: ModThree_def modThree_def Calculate_def Automaton_of_def
          Run_mod3_eq [symmetric] r)
  qed
qed

lemma Run_mod3_1A0:
  "Run mod3_automaton (str ''1A0'') = ([], Some (InvalidInputSymbol (str ''A'') StateS1))"
  by (simp add: Run_def mod3_automaton_def mod3_table_def str_simps str_def)

lemma TrimSpace_1A0: "TrimSpace (str ''1A0'') \<noteq> []"
  by (simp add: TrimSpace_empty_iff str_def isSpace_def)

section \<open>The claims\<close>

text \<open>
  Claim C1.  The calculator built from \<open>GetModThreeConfig\<close> exists, and on every input made
  of the characters '0' and '1' only, of any length, \<open>Calculate\<close> returns the remainder
  modulo 3 of the number the input denotes (most significant bit first, the empty input
  denoting 0) together with a nil error.  In particular "110" gives 0, "101" gives 2 and
  "10" repeated 100 times gives 2.
\<close>

theorem Calculate_binary_remainder:
  "(\<exists>c. NewModThreeCalculator GetModThreeConfig = Inr c)
   \<and> (NewModThreeCalculator GetModThreeConfig = Inr c \<longrightarrow>
        (is_binary input \<longrightarrow>
           Calculate c input = (int (bin_value input mod 3), None)
           \<and> fst (Calculate c input) \<in> {0, 1, 2})
        \<and> Calculate c [] = (0, None)
        \<and> Calculate c (str ''110'') = (0, None)
        \<and> Calculate c (str ''101'') = (2, None)
        \<and> Calculate c (concat (replicate 100 (str ''10''))) = (2, None))"
proof (intro conjI impI)
  show "\<exists>c. NewModThreeCalculator GetModThreeConfig = Inr c"
    using NewModThreeCalculator_mod3 by blast
next
  assume "NewModThreeCalculator GetModThreeConfig = Inr c"
  then have c: "c = \<lparr>fa = Automaton_of mod3_automaton\<rparr>"
    by (simp add: NewModThreeCalculator_mod3_eq)
  show "Calculate c [] = (0, None)" by (simp add: Calculate_def TrimSpace_def)
  show "Calculate c (str ''110'') = (0, None)"
    unfolding c using Calculate_mod3_binary [OF small_values(1)] by (simp add: small_values)
  show "Calculate c (str ''101'') = (2, None)"
    unfolding c using Calculate_mod3_binary [OF small_values(3)] by (simp add: small_values)
  show "Calculate c (concat (replicate 100 (str ''10''))) = (2, None)"
    unfolding c using Calculate_mod3_binary [OF repeat_10_binary] by (simp add: repeat_10_value)
  assume "is_binary input"
  then have r: "Calculate c input = (int (bin_value input mod 3), None)"
    unfolding c by (rule Calculate_mod3_binary)
  then have "snd (Calculate c input) = None" by simp
  then show "fst (Calculate c input) \<in> {0, 1, 2}" by (rule Calculate_success_range)
  show "Calculate c input = (int (bin_value input mod 3), None)" by (rule r)
qed

theorem Calculate_binary_remainder_witness:
  "NewModThreeCalculator GetModThreeConfig = Inr \<lparr>fa = Automaton_of mod3_automaton\<rparr>
   \<and> is_binary (str ''1101'')
   \<and> Calculate \<lparr>fa = Automaton_of mod3_automaton\<rparr> (str ''1101'') = (1, None)"
proof -
  have b: "is_binary (str ''1101'')" by (simp add: is_binary_def str_def)
  have v: "bin_value (str ''1101'') = 13" by (simp add: bin_value_def str_def)
  from Calculate_binary_remainder [of "\<lparr>fa = Automaton_of mod3_automaton\<rparr>" "str ''1101''"]
    NewModThreeCalculator_mod3 b v
  show ?thesis by simp
qed

text \<open>
  Claim C2, as amended.  \<open>NewFiniteAutomaton\<close> succeeds if and only if the configuration
  satisfies the four invariants and every declared state has a transition row; otherwise
  it returns an error and no automaton.  When the alphabet is not empty the four invariants
  give the rows.  On success the returned automaton has its initial state among its states,
  its accepting states among its states, and for every one of its states and symbols a
  transition whose target is one of its states; its states and symbols are the declared
  ones, its initial state and transition table the ones supplied.
\<close>

theorem NewFiniteAutomaton_succeeds_iff:
  "((\<exists>a. NewFiniteAutomaton st al i acc tr = Inr a) \<longleftrightarrow>
       four_invariants st al i acc tr \<and> every_state_has_row st tr)
   \<and> ((\<exists>e. NewFiniteAutomaton st al i acc tr = Inl e) \<longleftrightarrow>
       \<not> (four_invariants st al i acc tr \<and> every_state_has_row st tr))
   \<and> (al \<noteq> [] \<and> four_invariants st al i acc tr \<longrightarrow> every_state_has_row st tr)
   \<and> (\<forall>a. NewFiniteAutomaton st al i acc tr = Inr a \<longrightarrow>
         (\<forall>s. States a s \<noteq> None \<longleftrightarrow> s \<in> set st)
         \<and> (\<forall>x. Alphabet a x \<noteq> None \<longleftrightarrow> x \<in> set al)
         \<and> InitialState a = i \<and> Transitions a = tr
         \<and> States a (InitialState a) \<noteq> None
         \<and> (\<forall>s. AcceptingStates a s \<noteq> None \<longrightarrow> States a s \<noteq> None)
         \<and> (\<forall>s x. States a s \<noteq> None \<and> Alphabet a x \<noteq> None \<longrightarrow>
               (\<exists>row t. Transitions a s = Some row \<and> row x = Some t \<and> States a t \<noteq> None)))"
proof (intro conjI allI impI)
  show 1: "(\<exists>a. NewFiniteAutomaton st al i acc tr = Inr a) \<longleftrightarrow>
       four_invariants st al i acc tr \<and> every_state_has_row st tr"
    unfolding valid_config_iff NewFiniteAutomaton_Inr_iff by simp
  show "(\<exists>e. NewFiniteAutomaton st al i acc tr = Inl e) \<longleftrightarrow>
       \<not> (four_invariants st al i acc tr \<and> every_state_has_row st tr)"
    unfolding 1 [symmetric] by (cases "NewFiniteAutomaton st al i acc tr") auto
next
  assume "al \<noteq> [] \<and> four_invariants st al i acc tr"
  then show "every_state_has_row st tr" by (blast intro: row_of_nonempty_alphabet)
next
  fix a assume ok: "NewFiniteAutomaton st al i acc tr = Inr a"
  then show "States a (InitialState a) \<noteq> None"
    by (simp add: NewFiniteAutomaton_Inr_iff make_set_None)
  from ok show "InitialState a = i" "Transitions a = tr"
    by (simp_all add: NewFiniteAutomaton_Inr_iff)
  fix s x
  from ok show "States a s \<noteq> None \<longleftrightarrow> s \<in> set st"
    by (simp add: NewFiniteAutomaton_Inr_iff make_set_None)
  from ok show "Alphabet a x \<noteq> None \<longleftrightarrow> x \<in> set al"
    by (simp add: NewFiniteAutomaton_Inr_iff make_set_None)
next
  fix a s assume ok: "NewFiniteAutomaton st al i acc tr = Inr a"
    and "AcceptingStates a s \<noteq> None"
  then show "States a s \<noteq> None"
    by (auto simp: NewFiniteAutomaton_Inr_iff make_set_None)
next
  fix a s x assume ok: "NewFiniteAutomaton st al i acc tr = Inr a"
    and "States a s \<noteq> None \<and> Alphabet a x \<noteq> None"
  then show "\<exists>row t. Transitions a s = Some row \<and> row x = Some t \<and> States a t \<noteq> None"
    by (simp add: NewFiniteAutomaton_Inr_iff make_set_None) blast
qed

theorem NewFiniteAutomaton_succeeds_iff_witness:
  "four_invariants [StateS0, StateS1, StateS2] [Symbol0, Symbol1] StateS0
     [StateS0, StateS1, StateS2] mod3_table
   \<and> every_state_has_row [StateS0, StateS1, StateS2] mod3_table
   \<and> NewFiniteAutomaton [StateS0, StateS1, StateS2] [Symbol0, Symbol1] StateS0
       [StateS0, StateS1, StateS2] mod3_table = Inr mod3_automaton
   \<and> States mod3_automaton (InitialState mod3_automaton) \<noteq> None"
  using NewFiniteAutomaton_succeeds_iff [of "[StateS0, StateS1, StateS2]" "[Symbol0, Symbol1]" StateS0
      "[StateS0, StateS1, StateS2]" mod3_table] NewFiniteAutomaton_mod3
  by auto

text \<open>
  The claim as first stated (success exactly when the four invariants hold) fails for an
  empty alphabet: one declared state, no symbol, no row.  The four invariants hold, the
  last two vacuously, and the constructor reports the missing row.
\<close>

theorem NewFiniteAutomaton_empty_alphabet_counterexample:
  "four_invariants [str ''S0''] [] (str ''S0'') [] Map.empty
   \<and> NewFiniteAutomaton [str ''S0''] [] (str ''S0'') [] Map.empty
       = Inl (MissingTransitionRules (str ''S0''))"
  by (simp add: four_invariants_def NewFiniteAutomaton_def make_set_def)

text \<open>
  Claim C3.  On an automaton returned by \<open>NewFiniteAutomaton\<close>, and an input that
  \<open>ValidateInput\<close> accepts, \<open>Run\<close> returns a state and a nil error (neither error branch
  is taken), and the state is one of the declared states.
\<close>

theorem Run_total_on_validated_input:
  "NewFiniteAutomaton st al i acc tr = Inr a \<Longrightarrow> ValidateInput a input \<Longrightarrow>
     \<exists>s. Run a input = (s, None) \<and> States a s \<noteq> None \<and> s \<in> set st"
proof -
  assume ok: "NewFiniteAutomaton st al i acc tr = Inr a" and v: "ValidateInput a input"
  from ok have a: "a = \<lparr>States = make_set st, Alphabet = make_set al, InitialState = i,
          AcceptingStates = make_set acc, Transitions = tr\<rparr>"
    and i: "i \<in> set st"
    and t: "\<forall>s \<in> set st. \<exists>row. tr s = Some row \<and>
            (\<forall>x \<in> set al. \<exists>t. row x = Some t \<and> t \<in> set st)"
    by (simp_all add: NewFiniteAutomaton_Inr_iff)
  from v have "\<forall>c \<in> set input. [c] \<in> set al"
    by (simp add: ValidateInput_set a make_set_None)
  from Run_loop_total [OF t i this] show ?thesis
    by (simp add: Run_def a make_set_None)
qed

theorem Run_total_on_validated_input_witness:
  "NewFiniteAutomaton [StateS0, StateS1, StateS2] [Symbol0, Symbol1] StateS0
     [StateS0, StateS1, StateS2] mod3_table = Inr mod3_automaton
   \<and> ValidateInput mod3_automaton (str ''110'')
   \<and> snd (Run mod3_automaton (str ''110'')) = None
   \<and> fst (Run mod3_automaton (str ''110'')) \<in> {StateS0, StateS1, StateS2}"
proof -
  have v: "ValidateInput mod3_automaton (str ''110'')"
    by (simp add: mod3_automaton_def make_set_lookup str_simps str_def)
  from Run_total_on_validated_input [OF NewFiniteAutomaton_mod3 v] NewFiniteAutomaton_mod3 v
  show ?thesis by auto
qed

text \<open>
  Claim C4.  Whenever \<open>Run\<close> succeeds, the state it returns is the left fold of the
  transition function over the symbols of the input, from the initial state; on the empty
  input \<open>Run\<close> returns the initial state and a nil error, whatever the automaton.
\<close>

theorem Run_is_left_fold:
  "(Run a input = (s, None) \<longrightarrow> fold_delta a input = Some s)
   \<and> Run a [] = (InitialState a, None)"
  by (auto simp: Run_def fold_delta_def dest: Run_loop_fold)

theorem Run_is_left_fold_witness:
  "Run setupSimpleFA (str ''ab'') = (str ''End'', None)
   \<and> fold_delta setupSimpleFA (str ''ab'') = Some (str ''End'')"
proof -
  have p: "Run setupSimpleFA (str ''ab'') = (str ''End'', None)"
    by (simp add: Run_def setupSimpleFA_def str_def)
  with Run_is_left_fold [of setupSimpleFA "str ''ab''" "str ''End''"] show ?thesis by simp
qed

text \<open>
  Claim C5.  \<open>Calculate\<close> returns a non-nil error exactly when the remainder it returns
  is \<open>-1\<close>; a result without error is 0, 1 or 2; and on the calculator built from
  \<open>GetModThreeConfig\<close> every input that does not trim to the empty string and has a
  character other than '0' and '1' gives \<open>-1\<close> and an error.
\<close>

theorem Calculate_error_iff_sentinel:
  "(snd (Calculate c input) \<noteq> None \<longleftrightarrow> fst (Calculate c input) = - 1)
   \<and> (snd (Calculate c input) = None \<longrightarrow> fst (Calculate c input) \<in> {0, 1, 2})
   \<and> (NewModThreeCalculator GetModThreeConfig = Inr c \<and> \<not> is_binary input
        \<and> TrimSpace input \<noteq> [] \<longrightarrow>
        (\<exists>err. Calculate c input = (- 1, Some err)))"
proof (intro conjI impI)
  show "snd (Calculate c input) \<noteq> None \<longleftrightarrow> fst (Calculate c input) = - 1"
    by (rule Calculate_sentinel)
next
  assume "snd (Calculate c input) = None"
  then show "fst (Calculate c input) \<in> {0, 1, 2}" by (rule Calculate_success_range)
next
  assume a: "NewModThreeCalculator GetModThreeConfig = Inr c \<and> \<not> is_binary input
        \<and> TrimSpace input \<noteq> []"
  then have c: "c = \<lparr>fa = Automaton_of mod3_automaton\<rparr>"
    by (simp add: NewModThreeCalculator_mod3_eq)
  from a Calculate_mod3_invalid [of input] show "\<exists>err. Calculate c input = (- 1, Some err)"
    unfolding c by blast
qed

theorem Calculate_error_iff_sentinel_witness:
  "NewModThreeCalculator GetModThreeConfig = Inr \<lparr>fa = Automaton_of mod3_automaton\<rparr>
   \<and> is_binary (str ''1A0'') = False
   \<and> TrimSpace (str ''1A0'') \<noteq> []
   \<and> fst (Calculate \<lparr>fa = Automaton_of mod3_automaton\<rparr> (str ''1A0'')) = - 1
   \<and> snd (Calculate \<lparr>fa = Automaton_of mod3_automaton\<rparr> (str ''1A0'')) \<noteq> None"
proof -
  have nb: "is_binary (str ''1A0'') = False" by (simp add: is_binary_def str_def)
  from Calculate_error_iff_sentinel [of "\<lparr>fa = Automaton_of mod3_automaton\<rparr>" "str ''1A0''"]
    NewModThreeCalculator_mod3 nb TrimSpace_1A0
  show ?thesis by auto
qed

text \<open>
  Claim C6 at the input "1A0".  \<open>Calculate\<close> on the calculator built from
  \<open>GetModThreeConfig\<close> calls \<open>Run\<close> without validating first: although
  \<open>ValidateInput\<close> rejects the input, the error returned is the one \<open>Run\<close> raises at
  the symbol 'A' in state S1, with remainder \<open>-1\<close>.
\<close>

theorem Calculate_invalid_symbol_is_run_error:
  "(case NewModThreeCalculator GetModThreeConfig of
      Inl e \<Rightarrow> False
    | Inr c \<Rightarrow>
        Calculate c (str ''1A0'') = (- 1, Some (InvalidInputSymbol (str ''A'') StateS1))
        \<and> run (fa c) (str ''1A0'') = ([], Some (InvalidInputSymbol (str ''A'') StateS1))
        \<and> validateInput (fa c) (str ''1A0'') = False)"
proof -
  have v: "ValidateInput mod3_automaton (str ''1A0'') = False"
    by (simp add: mod3_automaton_def make_set_lookup str_simps str_def)
  show ?thesis
    using TrimSpace_1A0 v
    by (simp add: NewModThreeCalculator_mod3 Calculate_def Automaton_of_def Run_mod3_1A0)
qed

text \<open>
  Claim C7.  When the input trims to the empty string, as the empty string and every string
  of spaces, tabs and newlines do, \<open>Calculate\<close> returns 0 and a nil error whatever the
  methods of its automaton are: the result does not depend on \<open>Run\<close>.
\<close>

theorem Calculate_blank_input:
  "(TrimSpace input = [] \<longrightarrow>
      Calculate \<lparr>fa = \<lparr>run = r, isAccepting = acc, validateInput = v\<rparr>\<rparr> input = (0, None))
   \<and> (list_all (\<lambda>ch. ch = 32 \<or> ch = 9 \<or> ch = 10) input \<longrightarrow>
      TrimSpace input = []
      \<and> Calculate \<lparr>fa = \<lparr>run = r, isAccepting = acc, validateInput = v\<rparr>\<rparr> input = (0, None))
   \<and> Calculate \<lparr>fa = \<lparr>run = r, isAccepting = acc, validateInput = v\<rparr>\<rparr> [] = (0, None)"
proof (intro conjI impI)
  assume "list_all (\<lambda>ch. ch = 32 \<or> ch = 9 \<or> ch = 10) input"
  then have "list_all isSpace input"
    by (auto simp: list_all_iff isSpace_def)
  then show t: "TrimSpace input = []" by (simp add: TrimSpace_empty_iff)
  then show "Calculate \<lparr>fa = \<lparr>run = r, isAccepting = acc, validateInput = v\<rparr>\<rparr> input = (0, None)"
    by (simp add: Calculate_def)
qed (simp_all add: Calculate_def TrimSpace_def)

theorem Calculate_blank_input_witness:
  "TrimSpace [32, 9, 10] = []
   \<and> Calculate \<lparr>fa = Automaton_of mod3_automaton\<rparr> [32, 9, 10] = (0, None)
   \<and> fst (Run mod3_automaton [32, 9, 10]) = []"
proof -
  have l: "list_all (\<lambda>ch. ch = 32 \<or> ch = 9 \<or> ch = 10) [32, 9, 10::nat]" by simp
  have r: "fst (Run mod3_automaton [32, 9, 10]) = []"
    by (simp add: Run_def mod3_automaton_def mod3_table_def str_simps)
  from Calculate_blank_input [of "[32, 9, 10]" "Run mod3_automaton" "IsAccepting mod3_automaton"
      "ValidateInput mod3_automaton"] l r
  show ?thesis by (simp add: Automaton_of_def)
qed

text \<open>
  Claim C8.  When \<open>Run\<close> returns an error it returns the empty state with it.  If the
  symbols before some position are consumed without error and the state reached has no
  transition row, or has a row without the symbol at that position, \<open>Run\<close> returns the
  error of that kind for that state (and symbol) whatever follows in the input.  Every
  error of \<open>Run\<close> arises at such a first failing position.
\<close>

theorem Run_failure_stops:
  "(snd (Run a input) \<noteq> None \<longrightarrow> fst (Run a input) = [])
   \<and> (Run a pre = (s, None) \<and> Transitions a s = None \<longrightarrow>
        Run a (pre @ c # rest) = ([], Some (TransitionRuleMissing s)))
   \<and> (Run a pre = (s, None) \<and> Transitions a s = Some row \<and> row [c] = None \<longrightarrow>
        Run a (pre @ c # rest) = ([], Some (InvalidInputSymbol [c] s)))
   \<and> (Run a input = (r, Some e) \<longrightarrow>
        (\<exists>pre c rest s. input = pre @ c # rest \<and> Run a pre = (s, None) \<and>
           ((Transitions a s = None \<and> e = TransitionRuleMissing s) \<or>
            (\<exists>row. Transitions a s = Some row \<and> row [c] = None \<and> e = InvalidInputSymbol [c] s))))"
proof (intro conjI impI)
  assume "snd (Run a input) \<noteq> None"
  then show "fst (Run a input) = []"
    unfolding Run_def by (rule Run_loop_error_empty)
next
  assume "Run a pre = (s, None) \<and> Transitions a s = None"
  then show "Run a (pre @ c # rest) = ([], Some (TransitionRuleMissing s))"
    by (simp add: Run_def Run_loop_append)
next
  assume "Run a pre = (s, None) \<and> Transitions a s = Some row \<and> row [c] = None"
  then show "Run a (pre @ c # rest) = ([], Some (InvalidInputSymbol [c] s))"
    by (simp add: Run_def Run_loop_append)
next
  assume "Run a input = (r, Some e)"
  then show "\<exists>pre c rest s. input = pre @ c # rest \<and> Run a pre = (s, None) \<and>
           ((Transitions a s = None \<and> e = TransitionRuleMissing s) \<or>
            (\<exists>row. Transitions a s = Some row \<and> row [c] = None \<and> e = InvalidInputSymbol [c] s))"
    unfolding Run_def by (rule Run_loop_error_split)
qed

theorem Run_failure_stops_witness:
  "Run setupSimpleFA (str ''x'') = (str ''Fail'', None)
   \<and> Transitions setupSimpleFA (str ''Fail'') = None
   \<and> Run setupSimpleFA (str ''xbc'') = ([], Some (TransitionRuleMissing (str ''Fail'')))
   \<and> Run setupSimpleFA (str ''a'') = (str ''Middle'', None)
   \<and> Run setupSimpleFA (str ''aab'') = ([], Some (InvalidInputSymbol (str ''a'') (str ''Middle'')))"
proof -
  have p: "Run setupSimpleFA (str ''x'') = (str ''Fail'', None)"
    by (simp add: Run_def setupSimpleFA_def str_def)
  have q: "Transitions setupSimpleFA (str ''Fail'') = None"
    by (simp add: setupSimpleFA_def str_def)
  have p': "Run setupSimpleFA (str ''a'') = (str ''Middle'', None)"
    by (simp add: Run_def setupSimpleFA_def str_def)
  have q': "Transitions setupSimpleFA (str ''Middle'') = Some [str ''b'' \<mapsto> str ''End'']"
    by (simp add: setupSimpleFA_def str_def)
  have r': "[str ''b'' \<mapsto> str ''End''] [of_char CHR ''a''] = None"
    by (simp add: str_def)
  from Run_failure_stops [where a = setupSimpleFA and pre = "str ''x''" and s = "str ''Fail''"
      and c = "of_char CHR ''b''" and rest = "str ''c''"] p q
  have 1: "Run setupSimpleFA (str ''xbc'') = ([], Some (TransitionRuleMissing (str ''Fail'')))"
    by (simp add: str_def)
  from Run_failure_stops [where a = setupSimpleFA and pre = "str ''a''" and s = "str ''Middle''"
      and c = "of_char CHR ''a''" and rest = "str ''b''" and row = "[str ''b'' \<mapsto> str ''End'']"] p' q' r'
  have 2: "Run setupSimpleFA (str ''aab'') = ([], Some (InvalidInputSymbol (str ''a'') (str ''Middle'')))"
    by (simp add: str_def)
  from p q 1 p' 2 show ?thesis by simp
qed

text \<open>
  Claim C9.  \<open>ValidateInput\<close> is true exactly when every character of the input, as a
  one-character string, is a key of the alphabet; it is true on the empty input, and one
  character outside the alphabet makes it false wherever it stands.
\<close>

theorem ValidateInput_iff_alphabet:
  "(ValidateInput a input \<longleftrightarrow> (\<forall>c \<in> set input. Alphabet a [c] \<noteq> None))
   \<and> ValidateInput a []
   \<and> (Alphabet a [c] = None \<longrightarrow> \<not> ValidateInput a (pre @ c # post))"
  by (simp add: ValidateInput_set)

theorem ValidateInput_iff_alphabet_witness:
  "ValidateInput mod3_automaton (str ''110'')
   \<and> Alphabet mod3_automaton (str ''A'') = None
   \<and> \<not> ValidateInput mod3_automaton (str ''1A0'')"
proof -
  have v: "\<forall>ch \<in> set (str ''110''). Alphabet mod3_automaton [ch] \<noteq> None"
    by (simp add: mod3_automaton_def make_set_None str_simps str_def)
  have n: "Alphabet mod3_automaton [65] = None"
    by (simp add: mod3_automaton_def make_set_None str_simps)
  have s: "str ''1'' @ 65 # str ''0'' = str ''1A0''" "str ''A'' = [65]"
    by (simp_all add: str_def)
  note t = ValidateInput_iff_alphabet [of mod3_automaton "str ''110''" 65 "str ''1''" "str ''0''"]
  from t v have 1: "ValidateInput mod3_automaton (str ''110'')" by blast
  from t n have 2: "\<not> ValidateInput mod3_automaton (str ''1'' @ 65 # str ''0'')" by blast
  from 1 2 n show ?thesis by (simp only: s simp_thms)
qed

text \<open>
  Claim C10.  \<open>ModThree\<close> returns the remainder component of \<open>Calculate\<close> on the
  calculator built from \<open>GetModThreeConfig\<close>, for every input: 0 when the input trims to
  the empty string, \<open>-1\<close> exactly when \<open>Calculate\<close> returns an error, and otherwise the
  same value among 0, 1 and 2.
\<close>

theorem ModThree_agrees_with_Calculate:
  "NewModThreeCalculator GetModThreeConfig = Inr c \<longrightarrow>
     ModThree input = fst (Calculate c input)
     \<and> (TrimSpace input = [] \<longrightarrow> ModThree input = 0)
     \<and> (ModThree input = - 1 \<longleftrightarrow> snd (Calculate c input) \<noteq> None)
     \<and> (snd (Calculate c input) = None \<longrightarrow> ModThree input \<in> {0, 1, 2})"
proof
  assume "NewModThreeCalculator GetModThreeConfig = Inr c"
  then have c: "c = \<lparr>fa = Automaton_of mod3_automaton\<rparr>"
    by (simp add: NewModThreeCalculator_mod3_eq)
  have eq: "ModThree input = fst (Calculate c input)"
    unfolding c by (rule ModThree_eq_Calculate)
  have "TrimSpace input = [] \<longrightarrow> ModThree input = 0"
    by (simp add: ModThree_def modThree_def)
  moreover have "ModThree input = - 1 \<longleftrightarrow> snd (Calculate c input) \<noteq> None"
    unfolding eq by (simp only: Calculate_sentinel)
  moreover have "snd (Calculate c input) = None \<longrightarrow> ModThree input \<in> {0, 1, 2}"
    unfolding eq using Calculate_success_range [of c input] by simp
  ultimately show "ModThree input = fst (Calculate c input)
     \<and> (TrimSpace input = [] \<longrightarrow> ModThree input = 0)
     \<and> (ModThree input = - 1 \<longleftrightarrow> snd (Calculate c input) \<noteq> None)
     \<and> (snd (Calculate c input) = None \<longrightarrow> ModThree input \<in> {0, 1, 2})"
    using eq by blast
qed

theorem ModThree_agrees_with_Calculate_witness:
  "NewModThreeCalculator GetModThreeConfig = Inr \<lparr>fa = Automaton_of mod3_automaton\<rparr>
   \<and> ModThree (str ''1A0'') = - 1
   \<and> Calculate \<lparr>fa = Automaton_of mod3_automaton\<rparr> (str ''1A0'')
       = (- 1, Some (InvalidInputSymbol (str ''A'') StateS1))"
proof -
  have e: "Calculate \<lparr>fa = Automaton_of mod3_automaton\<rparr> (str ''1A0'')
       = (- 1, Some (InvalidInputSymbol (str ''A'') StateS1))"
    using TrimSpace_1A0 by (simp add: Calculate_def Automaton_of_def Run_mod3_1A0)
  from ModThree_agrees_with_Calculate [of "\<lparr>fa = Automaton_of mod3_automaton\<rparr>" "str ''1A0''"]
    NewModThreeCalculator_mod3 e
  show ?thesis by simp
qed

end
